theory Spec2Isabelle
  imports Main "HOL-Library.Sublist"
begin

section \<open>JavaScript values\<close>

text \<open>
  The values that occur in \<^verbatim>\<open>src/js/apiCalls.js\<close>. Numbers are the integers and
  \<open>NaN\<close>: every number the file computes from well-formed form data is an integer.
  An object lives in the heap and a value refers to it by its address, so that two
  names for one object (as in \<^verbatim>\<open>const entryObjectCopy = serializedEntry\<close>) are one
  address.
\<close>

datatype jsval = Undefined | Null | Str string | Num int | NaN | Ref nat

text \<open>An object is its list of properties, in insertion order.\<close>

type_synonym object = "(string \<times> jsval) list"

text \<open>
  What the source can throw or reject with. \<open>Message\<close> is a rejection with a plain
  string (\<^verbatim>\<open>reject(msg)\<close>), \<open>Error\<close> is \<^verbatim>\<open>new Error(message)\<close>, \<open>FetchFailed\<close> is
  the rejection of \<^verbatim>\<open>fetch\<close> on a network failure, \<open>Unmodelled\<close> marks an input
  on which a built-in of the language leaves the fragment modelled here.
\<close>

datatype error =
    ValidationError string
  | TypeError
  | RangeError
  | SyntaxError
  | FetchFailed
  | Error string
  | Message string
  | Unmodelled

subsection \<open>Numbers and strings\<close>

definition digit_char :: "nat \<Rightarrow> char" where
  "digit_char d = ''0123456789'' ! d"

fun string_of_nat :: "nat \<Rightarrow> string" where
  "string_of_nat n =
     (if n < 10 then [digit_char n] else string_of_nat (n div 10) @ [digit_char (n mod 10)])"

declare string_of_nat.simps [simp del]

definition string_of_int :: "int \<Rightarrow> string" where
  "string_of_int i = (if i < 0 then CHR ''-'' # string_of_nat (nat (- i)) else string_of_nat (nat i))"

text \<open>\<^verbatim>\<open>`${v}`\<close>: the string a template literal renders for a value.\<close>

fun toString :: "jsval \<Rightarrow> string" where
  "toString Undefined = ''undefined''"
| "toString Null = ''null''"
| "toString (Str s) = s"
| "toString (Num n) = string_of_int n"
| "toString NaN = ''NaN''"
| "toString (Ref r) = ''[object Object]''"

definition is_digit :: "char \<Rightarrow> bool" where
  "is_digit c = ((of_char CHR ''0'' :: nat) \<le> of_char c \<and> (of_char c :: nat) \<le> of_char CHR ''9'')"

definition digit_val :: "char \<Rightarrow> nat" where
  "digit_val c = of_char c - of_char CHR ''0''"

definition nat_of_digits :: "string \<Rightarrow> nat" where
  "nat_of_digits s = foldl (\<lambda>acc c. 10 * acc + digit_val c) 0 s"

text \<open>
  The conversion of a string to a number (unary \<^verbatim>\<open>+\<close>, and the arguments of
  \<^verbatim>\<open>new Date\<close>), on the fragment of plain decimal digit strings below
  \<open>2^53 = 9007199254740992\<close>, where the result is that integer, and the empty string,
  which converts to \<open>0\<close>. Any other
  string (signs, white space, fractions, exponents, other text) is outside the
  fragment: \<open>None\<close>.
\<close>

definition stringToNumber :: "string \<Rightarrow> jsval option" where
  "stringToNumber s =
     (if s = [] then Some (Num 0)
      else if list_all is_digit s \<and> int (nat_of_digits s) < 9007199254740992
      then Some (Num (int (nat_of_digits s)))
      else None)"

fun toNumber :: "jsval \<Rightarrow> jsval option" where
  "toNumber Undefined = Some NaN"
| "toNumber Null = Some (Num 0)"
| "toNumber (Str s) = stringToNumber s"
| "toNumber (Num n) = Some (Num n)"
| "toNumber NaN = Some NaN"
| "toNumber (Ref r) = Some NaN"

text \<open>\<^verbatim>\<open>s.split(sep)\<close> for a one-character separator.\<close>

fun split :: "char \<Rightarrow> string \<Rightarrow> string list" where
  "split sep [] = [[]]"
| "split sep (c # cs) =
     (if c = sep then [] # split sep cs
      else (case split sep cs of [] \<Rightarrow> [[c]] | p # ps \<Rightarrow> (c # p) # ps))"

text \<open>\<^verbatim>\<open>s.replace(pat, rep)\<close> for a string pattern: the first occurrence only.\<close>

fun replace :: "string \<Rightarrow> string \<Rightarrow> string \<Rightarrow> string" where
  "replace pat rep [] = (if pat = [] then rep else [])"
| "replace pat rep (c # cs) =
     (if take (length pat) (c # cs) = pat then rep @ drop (length pat) (c # cs)
      else c # replace pat rep cs)"

text \<open>Element \<open>i\<close> of an array in a destructuring pattern: \<open>undefined\<close> past the end.\<close>

definition nth_or_undefined :: "jsval list \<Rightarrow> nat \<Rightarrow> jsval" where
  "nth_or_undefined xs i = (if i < length xs then xs ! i else Undefined)"

section \<open>Dates\<close>

text \<open>
  \<^verbatim>\<open>new Date(year, month, day, hours, minutes, seconds)\<close> reads its arguments as a
  local time and \<^verbatim>\<open>toISOString\<close> prints the instant in UTC, so the result depends on
  the host's time zone: \<open>localTZA t\<close> is the offset of local time from UTC, in
  milliseconds, at the local time value \<open>t\<close>. Time values are integers of milliseconds
  since the epoch.
\<close>

definition msPerDay :: int where
  "msPerDay = 86400000"

text \<open>Days since the epoch of the first day of month \<open>m\<close> (from 0) of year \<open>y\<close>, plus \<open>d - 1\<close>.\<close>

definition MakeDay :: "int \<Rightarrow> int \<Rightarrow> int \<Rightarrow> int" where
  "MakeDay year month date =
     (let ym = year + month div 12;
          mn = month mod 12;
          y = (if mn < 2 then ym - 1 else ym);
          era = y div 400;
          yoe = y - era * 400;
          mp = (if mn < 2 then mn + 10 else mn - 2);
          doy = (153 * mp + 2) div 5;
          doe = yoe * 365 + yoe div 4 - yoe div 100 + doy
      in era * 146097 + doe - 719468 + date - 1)"

definition MakeTime :: "int \<Rightarrow> int \<Rightarrow> int \<Rightarrow> int \<Rightarrow> int" where
  "MakeTime hour minute sec ms = hour * 3600000 + minute * 60000 + sec * 1000 + ms"

definition MakeDate :: "int \<Rightarrow> int \<Rightarrow> int" where
  "MakeDate day time = day * msPerDay + time"

text \<open>A time value beyond 8.64e15 milliseconds is an invalid date: \<open>None\<close>.\<close>

definition TimeClip :: "int \<Rightarrow> int option" where
  "TimeClip t = (if \<bar>t\<bar> > 8640000000000000 then None else Some t)"

text \<open>Year, month (from 1) and day of month of a day number.\<close>

definition civil_of_day :: "int \<Rightarrow> int \<times> int \<times> int" where
  "civil_of_day z0 =
     (let z = z0 + 719468;
          era = z div 146097;
          doe = z - era * 146097;
          yoe = (doe - doe div 1460 + doe div 36524 - doe div 146096) div 365;
          doy = doe - (365 * yoe + yoe div 4 - yoe div 100);
          mp = (5 * doy + 2) div 153;
          d = doy - (153 * mp + 2) div 5 + 1;
          m = (if mp < 10 then mp + 3 else mp - 9);
          y = yoe + era * 400 + (if m \<le> 2 then 1 else 0)
      in (y, m, d))"

definition pad :: "nat \<Rightarrow> int \<Rightarrow> string" where
  "pad w n = (let s = string_of_int n in replicate (w - length s) CHR ''0'' @ s)"

text \<open>\<^verbatim>\<open>toISOString\<close> of a valid time value.\<close>

definition isoString :: "int \<Rightarrow> string" where
  "isoString tv =
     (let (y, m, d) = civil_of_day (tv div msPerDay);
          t = tv mod msPerDay;
          year = (if 0 \<le> y \<and> y \<le> 9999 then pad 4 y
                  else (if y < 0 then ''-'' else ''+'') @ pad 6 \<bar>y\<bar>)
      in year @ ''-'' @ pad 2 m @ ''-'' @ pad 2 d @ ''T'' @
         pad 2 (t div 3600000) @ '':'' @ pad 2 (t mod 3600000 div 60000) @ '':'' @
         pad 2 (t mod 60000 div 1000) @ ''.'' @ pad 3 (t mod 1000) @ ''Z'')"

text \<open>
  The time value of \<^verbatim>\<open>new Date(year, month, date, hours, minutes, seconds)\<close>: a
  year from 0 to 99 means 1900 + year; the local time is moved to UTC and clipped.
  \<open>Inr None\<close> is the invalid date (some argument is \<open>NaN\<close>, or the instant is out of
  range).
\<close>

fun the_int :: "jsval \<Rightarrow> int option" where
  "the_int (Num n) = Some n"
| "the_int v = None"

definition newDate ::
  "(int \<Rightarrow> int) \<Rightarrow> jsval \<Rightarrow> jsval \<Rightarrow> jsval \<Rightarrow> jsval \<Rightarrow> jsval \<Rightarrow> jsval \<Rightarrow> error + int option" where
  "newDate localTZA year month date hours minutes seconds =
     (case those (map toNumber [year, month, date, hours, minutes, seconds]) of
        None \<Rightarrow> Inl Unmodelled
      | Some ns \<Rightarrow>
          (case those (map the_int ns) of
             None \<Rightarrow> Inr None
           | Some is \<Rightarrow>
               (let y = is ! 0;
                    yr = (if 0 \<le> y \<and> y \<le> 99 then 1900 + y else y);
                    t = MakeDate (MakeDay yr (is ! 1) (is ! 2))
                                 (MakeTime (is ! 3) (is ! 4) (is ! 5) 0)
                in Inr (TimeClip (t - localTZA t)))))"

text \<open>\<^verbatim>\<open>toISOString\<close> throws a RangeError on the invalid date.\<close>

definition toISOString :: "int option \<Rightarrow> error + string" where
  "toISOString d = (case d of None \<Rightarrow> Inl RangeError | Some tv \<Rightarrow> Inr (isoString tv))"

text \<open>
  \<^verbatim>\<open>a - k\<close> for an integer \<open>k\<close>: the left operand is converted to a number, and the
  difference with \<open>NaN\<close> is \<open>NaN\<close>. \<open>None\<close> when the conversion leaves the fragment.
\<close>

definition minus_js :: "jsval \<Rightarrow> int \<Rightarrow> jsval option" where
  "minus_js a k =
     (case toNumber a of
        None \<Rightarrow> None
      | Some (Num n) \<Rightarrow> Some (Num (n - k))
      | Some v \<Rightarrow> Some NaN)"

section \<open>The form\<close>

text \<open>
  An element of the page: its \<^verbatim>\<open>value\<close> property (\<open>None\<close> where the element has
  none), its attributes and its child elements.
\<close>

datatype element =
  Element (el_value: "string option") (el_attrs: "(string \<times> string) list") (el_children: "element list")

definition getValue :: "element \<Rightarrow> jsval" where
  "getValue e = (case el_value e of None \<Rightarrow> Undefined | Some s \<Rightarrow> Str s)"

text \<open>\<^verbatim>\<open>node.getAttribute(name)\<close>: \<open>null\<close> when the attribute is absent.\<close>

definition getAttribute :: "element \<Rightarrow> string \<Rightarrow> jsval" where
  "getAttribute e a = (case map_of (el_attrs e) a of None \<Rightarrow> Null | Some s \<Rightarrow> Str s)"

text \<open>
  \<^verbatim>\<open>node.querySelector('[name="n"]')\<close>: the first descendant, in document order,
  whose \<^verbatim>\<open>name\<close> attribute is \<open>n\<close>; \<open>None\<close> is \<open>null\<close>.
\<close>

fun first_named :: "string \<Rightarrow> element list \<Rightarrow> element option" where
  "first_named n [] = None"
| "first_named n (Element v as cs # es) =
     (if map_of as ''name'' = Some n then Some (Element v as cs)
      else (case first_named n cs of Some e \<Rightarrow> Some e | None \<Rightarrow> first_named n es))"

definition querySelector :: "element \<Rightarrow> string \<Rightarrow> element option" where
  "querySelector node n = first_named n (el_children node)"

section \<open>formatDate\<close>

text \<open>
  \<^verbatim>\<open>formatDate(node)\<close>; \<open>None\<close> for the node is \<open>null\<close>, on which reading
  \<^verbatim>\<open>node.value\<close> throws a TypeError. The date is falsy when it is \<open>undefined\<close> or the
  empty string, the time when it is \<open>null\<close> or the empty string.
\<close>

definition formatDate :: "(int \<Rightarrow> int) \<Rightarrow> element option \<Rightarrow> error + jsval" where
  "formatDate localTZA node =
     (case node of
        None \<Rightarrow> Inl TypeError
      | Some n \<Rightarrow>
          (case el_value n of
             None \<Rightarrow> Inr Null
           | Some date \<Rightarrow>
               if date = [] then Inr Null
               else
                 (case those (map stringToNumber (split CHR ''-'' date)) of
                    None \<Rightarrow> Inl Unmodelled
                  | Some ymd \<Rightarrow>
                      (let time = getAttribute n ''data-orig-time'';
                           hms = (case time of
                                    Str t \<Rightarrow> if t = [] then [Num 0, Num 0, Num 0]
                                             else map Str (split CHR '':'' t)
                                  | _ \<Rightarrow> [Num 0, Num 0, Num 0])
                       in case minus_js (nth_or_undefined ymd 1) 1 of
                            None \<Rightarrow> Inl Unmodelled
                          | Some month \<Rightarrow>
                              (case newDate localTZA
                                      (nth_or_undefined ymd 0)
                                      month
                                      (nth_or_undefined ymd 2)
                                      (nth_or_undefined hms 0)
                                      (nth_or_undefined hms 1)
                                      (nth_or_undefined hms 2) of
                                 Inl e \<Rightarrow> Inl e
                               | Inr dateObject \<Rightarrow>
                                   (case toISOString dateObject of
                                      Inl e \<Rightarrow> Inl e
                                    | Inr s \<Rightarrow> Inr (Str (replace ''.000Z'' ''Z'' s))))))))"

section \<open>The page and the host\<close>

record loginInfo =
  gitHubUsername :: string
  personalAccessToken :: string
  homeRepoOwner :: string
  homeRepoName :: string
  templateRepoOwner :: string
  templateRepoName :: string

text \<open>
  The body of a request is \<^verbatim>\<open>JSON.stringify(entryPackage.body)\<close>. The text itself is
  not modelled: a request carries the members that \<^verbatim>\<open>JSON.stringify\<close> renders, in
  order (a property whose value is \<open>undefined\<close> is left out, \<open>NaN\<close> is rendered as
  \<open>null\<close>), or the single value when the argument is not an object.
\<close>

datatype json_text = JSON_object "(string \<times> jsval) list" | JSON_value jsval

record request =
  req_url :: string
  req_method :: string
  req_headers :: "(string \<times> string) list"
  req_body :: "json_text option"

text \<open>
  A response of \<^verbatim>\<open>fetch\<close>: \<open>json\<close> is the array that \<^verbatim>\<open>response.json()\<close> resolves
  to, \<open>None\<close> when it rejects (the body is not JSON). A body that is JSON but not an
  array is outside the model. \<^verbatim>\<open>response.ok\<close> is the getter of the Fetch API: true
  exactly for the statuses 200 to 299.
\<close>

record 'r response =
  status :: int
  statusText :: string
  json :: "'r list option"

definition ok :: "'r response \<Rightarrow> bool" where
  "ok response = (200 \<le> status response \<and> status response \<le> 299)"

text \<open>
  What the file takes from outside: \<^verbatim>\<open>getLoginInfo\<close> of \<^verbatim>\<open>dataValidation.js\<close> (it
  returns the login information or throws), \<^verbatim>\<open>base64.encode\<close> of \<^verbatim>\<open>base64.js\<close>, the
  time zone of the host, the text that the engine prints for a thrown value, and the
  network: the response to a request, \<open>None\<close> when \<^verbatim>\<open>fetch\<close> rejects.
\<close>

record 'r host =
  getLoginInfo :: "error + loginInfo"
  base64_encode :: "string \<Rightarrow> string"
  localTZA :: "int \<Rightarrow> int"
  errorString :: "error \<Rightarrow> string"
  network :: "request \<Rightarrow> 'r response option"

text \<open>
  What the file changes: the heap of objects, the paragraphs that \<^verbatim>\<open>writeLog\<close> has
  appended to the body of the modal \<^verbatim>\<open>#committing-modal\<close> (the page is taken to
  contain it), the values passed to \<^verbatim>\<open>alert\<close> and to \<^verbatim>\<open>console.error\<close>, and the
  requests that \<^verbatim>\<open>fetch\<close> has sent.
\<close>

record state =
  heap :: "object list"
  modal_log :: "string list"
  alerts :: "error list"
  console :: "error list"
  requests :: "request list"

definition alloc :: "object \<Rightarrow> state \<Rightarrow> jsval \<times> state" where
  "alloc obj st = (Ref (length (heap st)), st\<lparr>heap := heap st @ [obj]\<rparr>)"

definition get_prop :: "object \<Rightarrow> string \<Rightarrow> jsval" where
  "get_prop obj k = (case map_of obj k of None \<Rightarrow> Undefined | Some v \<Rightarrow> v)"

definition delete_prop :: "string \<Rightarrow> object \<Rightarrow> object" where
  "delete_prop k obj = filter (\<lambda>(k', v). k' \<noteq> k) obj"

definition has_prop :: "object \<Rightarrow> string \<Rightarrow> bool" where
  "has_prop obj k = (k \<in> fst ` set obj)"

definition bindE :: "error + 'a \<Rightarrow> ('a \<Rightarrow> error + 'b) \<Rightarrow> error + 'b" where
  "bindE m f = (case m of Inl e \<Rightarrow> Inl e | Inr x \<Rightarrow> f x)"

definition makeBasicAuth :: "'r host \<Rightarrow> loginInfo \<Rightarrow> string" where
  "makeBasicAuth H loginInfo =
     ''Basic '' @ base64_encode H (gitHubUsername loginInfo @ '':'' @ personalAccessToken loginInfo)"

definition writeLog :: "string \<Rightarrow> state \<Rightarrow> state" where
  "writeLog string st = st\<lparr>modal_log := modal_log st @ [string]\<rparr>"

text \<open>
  Modelled from the spec: \<^verbatim>\<open>validateKind\<close> of \<^verbatim>\<open>dataValidation.js\<close>, which is not
  among the sources. The kinds are \<open>labels\<close> and \<open>milestones\<close>; any other kind fails
  with a ValidationError.
\<close>

definition validateKind :: "string \<Rightarrow> error + unit" where
  "validateKind kind =
     (if kind = ''labels'' \<or> kind = ''milestones'' then Inr () else Inl (ValidationError kind))"

section \<open>serializeEntry\<close>

text \<open>
  \<^verbatim>\<open>node.querySelector('[name="n"]').p\<close> and
  \<^verbatim>\<open>node.querySelector('[name="n"]').getAttribute(a)\<close>: a TypeError when no element
  is found. An element of the form has the property \<^verbatim>\<open>value\<close>; any other
  property read is \<open>undefined\<close>.
\<close>

definition getProperty :: "element \<Rightarrow> string \<Rightarrow> jsval" where
  "getProperty e p = (if p = ''value'' then getValue e else Undefined)"

definition field_prop :: "element \<Rightarrow> string \<Rightarrow> string \<Rightarrow> error + jsval" where
  "field_prop node n p =
     (case querySelector node n of None \<Rightarrow> Inl TypeError | Some e \<Rightarrow> Inr (getProperty e p))"

definition field_attr :: "element \<Rightarrow> string \<Rightarrow> string \<Rightarrow> error + jsval" where
  "field_attr node n a =
     (case querySelector node n of None \<Rightarrow> Inl TypeError | Some e \<Rightarrow> Inr (getAttribute e a))"

text \<open>\<^verbatim>\<open>v.slice(1)\<close> on the value of a form field.\<close>

fun slice1 :: "jsval \<Rightarrow> error + jsval" where
  "slice1 (Str s) = Inr (Str (drop 1 s))"
| "slice1 v = Inl TypeError"

text \<open>Unary \<^verbatim>\<open>+\<close>.\<close>

definition unary_plus :: "jsval \<Rightarrow> error + jsval" where
  "unary_plus v = (case toNumber v of None \<Rightarrow> Inl Unmodelled | Some n \<Rightarrow> Inr n)"

text \<open>The object literal of each branch, its properties evaluated in the source's order.\<close>

definition label_entry :: "element \<Rightarrow> error + object" where
  "label_entry node =
     bindE (field_prop node ''name'' ''value'') (\<lambda>name.
     bindE (field_attr node ''name'' ''data-orig-val'') (\<lambda>originalName.
     bindE (bindE (field_prop node ''color'' ''value'') slice1) (\<lambda>color.
     bindE (field_prop node ''description'' ''value'') (\<lambda>description.
     Inr [(''name'', name), (''originalName'', originalName), (''color'', color),
          (''description'', description)]))))"

definition existing_milestone_entry :: "(int \<Rightarrow> int) \<Rightarrow> element \<Rightarrow> error + object" where
  "existing_milestone_entry tz node =
     bindE (field_prop node ''title'' ''value'') (\<lambda>title.
     bindE (field_attr node ''title'' ''data-orig-val'') (\<lambda>originalTitle.
     bindE (field_prop node ''state'' ''value'') (\<lambda>state.
     bindE (field_prop node ''description'' ''value'') (\<lambda>description.
     bindE (formatDate tz (querySelector node ''due-date'')) (\<lambda>due_on.
     bindE (unary_plus (getAttribute node ''data-number'')) (\<lambda>number.
     Inr [(''title'', title), (''originalTitle'', originalTitle), (''state'', state),
          (''description'', description), (''due_on'', due_on), (''number'', number)]))))))"

definition new_milestone_entry :: "(int \<Rightarrow> int) \<Rightarrow> element \<Rightarrow> error + object" where
  "new_milestone_entry tz node =
     bindE (field_prop node ''due-date'' ''value'') (\<lambda>dueDate.
     if dueDate \<noteq> Str [] then
       bindE (field_prop node ''title'' ''value'') (\<lambda>title.
       bindE (field_prop node ''state'' ''value'') (\<lambda>state.
       bindE (field_prop node ''description'' ''value'') (\<lambda>description.
       bindE (formatDate tz (querySelector node ''due-date'')) (\<lambda>due_on.
       Inr [(''title'', title), (''state'', state), (''description'', description),
            (''due_on'', due_on)]))))
     else
       bindE (field_prop node ''title'' ''value'') (\<lambda>title.
       bindE (field_prop node ''state'' ''valie'') (\<lambda>state.
       bindE (field_prop node ''description'' ''value'') (\<lambda>description.
       Inr [(''title'', title), (''state'', state), (''description'', description)]))))"

text \<open>
  \<^verbatim>\<open>serializeEntry(node, kind)\<close>. On an invalid kind the error goes to the console
  and to an alert and the function returns \<open>undefined\<close>. Otherwise the entry is a new
  object; an exception of a branch leaves the state as it was.
\<close>

definition serializeEntry :: "'r host \<Rightarrow> element \<Rightarrow> string \<Rightarrow> state \<Rightarrow> (error + jsval) \<times> state" where
  "serializeEntry H node kind st =
     (case validateKind kind of
        Inl err \<Rightarrow> (Inr Undefined, st\<lparr>alerts := alerts st @ [err], console := console st @ [err]\<rparr>)
      | Inr u \<Rightarrow>
          (case (if kind = ''labels'' then label_entry node
                 else if getAttribute node ''data-number'' \<noteq> Str ''null''
                      then existing_milestone_entry (localTZA H) node
                      else new_milestone_entry (localTZA H) node) of
             Inl e \<Rightarrow> (Inl e, st)
           | Inr obj \<Rightarrow> (case alloc obj st of (r, st') \<Rightarrow> (Inr r, st'))))"

section \<open>packEntry\<close>

record entryPackage =
  originalName :: jsval
  newName :: jsval
  apiCallSign :: jsval

record package =
  body :: jsval
  names :: entryPackage

text \<open>
  A property read \<^verbatim>\<open>v.k\<close>: a TypeError on \<open>undefined\<close> and \<open>null\<close>; \<open>undefined\<close> on
  any other primitive value (none of the properties read here exists on a string or a
  number) and on an object without the property. An address outside the heap does not
  occur; the model answers it with a TypeError.
\<close>

definition read_prop :: "state \<Rightarrow> jsval \<Rightarrow> string \<Rightarrow> error + jsval" where
  "read_prop st v k =
     (case v of
        Undefined \<Rightarrow> Inl TypeError
      | Null \<Rightarrow> Inl TypeError
      | Ref r \<Rightarrow> if r < length (heap st) then Inr (get_prop (heap st ! r) k) else Inl TypeError
      | _ \<Rightarrow> Inr Undefined)"

text \<open>\<^verbatim>\<open>delete v.k\<close>: the object at the address loses the property; a primitive value has none to lose.\<close>

definition delete_property :: "jsval \<Rightarrow> string \<Rightarrow> state \<Rightarrow> state" where
  "delete_property v k st =
     (case v of
        Ref r \<Rightarrow> st\<lparr>heap := (heap st)[r := delete_prop k (heap st ! r)]\<rparr>
      | _ \<Rightarrow> st)"

text \<open>
  \<^verbatim>\<open>packEntry(serializedEntry, kind)\<close>. \<^verbatim>\<open>entryObjectCopy\<close> is the argument itself
  (\<^verbatim>\<open>const entryObjectCopy = serializedEntry; // Avoid side effects\<close>), not a copy
  of the object: \<^verbatim>\<open>delete\<close> removes the property from the object of the caller,
  and the body of the package is that same object.
\<close>

definition packEntry :: "jsval \<Rightarrow> string \<Rightarrow> state \<Rightarrow> (error + package) \<times> state" where
  "packEntry serializedEntry kind st =
     (let entryObjectCopy = serializedEntry
      in if kind = ''labels'' then
           (case bindE (read_prop st entryObjectCopy ''originalName'') (\<lambda>orig.
                 bindE (read_prop st entryObjectCopy ''name'') (\<lambda>name.
                 bindE (read_prop st entryObjectCopy ''originalName'') (\<lambda>sign.
                 Inr \<lparr>originalName = orig, newName = name, apiCallSign = sign\<rparr>))) of
              Inl e \<Rightarrow> (Inl e, st)
            | Inr entryPackage \<Rightarrow>
                (Inr \<lparr>body = entryObjectCopy, names = entryPackage\<rparr>,
                 delete_property entryObjectCopy ''originalName'' st))
         else
           (case bindE (read_prop st entryObjectCopy ''originalTitle'') (\<lambda>orig.
                 bindE (read_prop st entryObjectCopy ''title'') (\<lambda>title.
                 bindE (read_prop st entryObjectCopy ''number'') (\<lambda>number.
                 Inr \<lparr>originalName = orig, newName = title, apiCallSign = number\<rparr>))) of
              Inl e \<Rightarrow> (Inl e, st)
            | Inr entryPackage \<Rightarrow>
                (Inr \<lparr>body = entryObjectCopy, names = entryPackage\<rparr>,
                 delete_property entryObjectCopy ''originalTitle'' st)))"

section \<open>composeStatusMessage\<close>

definition composeStatusMessage :: "'r response \<Rightarrow> string" where
  "composeStatusMessage response =
     (if ok response then string_of_int (status response) @ '' status OK.''
      else if status response = 401 then
        string_of_int (status response) @ '' '' @ statusText response @ ''.'' @
        '' Please check the input values of your login information.''
      else if status response = 403 then
        string_of_int (status response) @ '' '' @ statusText response @ ''.'' @
        '' The GitHub server refused to your request.'' @
        '' Maybe you have exceeded your rate limit.'' @
        '' Please wait for a little while.''
      else if status response = 404 then
        string_of_int (status response) @ '' '' @ statusText response @ ''.'' @
        '' Repository not found. Please check the input values of your'' @
        '' login information.''
      else string_of_int (status response) @ '' '' @ statusText response @ ''.'' @ '' Error occurred.'')"

section \<open>Requests\<close>

definition JSON_stringify :: "state \<Rightarrow> jsval \<Rightarrow> json_text" where
  "JSON_stringify st v =
     (case v of
        Ref r \<Rightarrow>
          if r < length (heap st)
          then JSON_object (map (\<lambda>(k, x). (k, if x = NaN then Null else x))
                                (filter (\<lambda>(k, x). x \<noteq> Undefined) (heap st ! r)))
          else JSON_value Undefined
      | NaN \<Rightarrow> JSON_value Null
      | _ \<Rightarrow> JSON_value v)"

text \<open>\<^verbatim>\<open>fetch(url, options)\<close>: the request is sent, and the network answers it.\<close>

definition fetch :: "'r host \<Rightarrow> request \<Rightarrow> state \<Rightarrow> 'r response option \<times> state" where
  "fetch H req st = (network H req, st\<lparr>requests := requests st @ [req]\<rparr>)"

definition urlForGet :: "loginInfo \<Rightarrow> string \<Rightarrow> nat \<Rightarrow> string \<Rightarrow> string" where
  "urlForGet loginInfo kind pageNum mode =
     (let owner = (if mode = ''list'' then homeRepoOwner loginInfo else templateRepoOwner loginInfo);
          repo = (if mode = ''list'' then homeRepoName loginInfo else templateRepoName loginInfo);
          url = ''https://api.github.com/repos/'' @ owner @ ''/'' @ repo @ ''/'' @ kind @
                ''?per_page=20'' @ ''&page='' @ string_of_nat pageNum
      in if kind = ''milestones'' then url @ ''&state=all'' else url)"

definition fetchGet ::
  "(loginInfo \<Rightarrow> string \<Rightarrow> nat \<Rightarrow> string \<Rightarrow> string) \<Rightarrow> 'r host \<Rightarrow> loginInfo \<Rightarrow> string \<Rightarrow> nat \<Rightarrow> string
     \<Rightarrow> state \<Rightarrow> 'r response option \<times> state" where
  "fetchGet getUrl H loginInfo kind pageNum mode st =
     fetch H \<lparr>req_url = getUrl loginInfo kind pageNum mode,
              req_method = ''GET'',
              req_headers = [(''Authorization'', makeBasicAuth H loginInfo),
                             (''Accept'', ''application/vnd.github.v3+json'')],
              req_body = None\<rparr> st"

section \<open>apiCallGet\<close>

text \<open>The \<^verbatim>\<open>catch\<close> handler of \<^verbatim>\<open>apiCallGet\<close>: alert, log to the console, reject.\<close>

definition catch_reject :: "error \<Rightarrow> state \<Rightarrow> (error + 'a) \<times> state" where
  "catch_reject err st = (Inl err, st\<lparr>alerts := alerts st @ [err], console := console st @ [err]\<rparr>)"

text \<open>
  \<^verbatim>\<open>apiCallGet(loginInfo, kind, pageNum, mode)\<close>, with the promise read as its
  outcome: \<open>Inr\<close> the value it resolves to, \<open>Inl\<close> the value it rejects with. The
  recursion goes on for as long as the pages are not empty, so the function is partial:
  \<open>None\<close> when the promise never settles. A rejection of the recursive call is thrown
  by \<^verbatim>\<open>await\<close> and reaches the \<^verbatim>\<open>catch\<close> handler of this call.
\<close>

partial_function (option) apiCallGet ::
  "'r host \<Rightarrow> loginInfo \<Rightarrow> string \<Rightarrow> nat \<Rightarrow> string \<Rightarrow> state \<Rightarrow> ((error + 'r list) \<times> state) option" where
  "apiCallGet H loginInfo kind pageNum mode st =
     (case fetchGet urlForGet H loginInfo kind pageNum mode st of
        (None, st1) \<Rightarrow> Some (catch_reject FetchFailed st1)
      | (Some response, st1) \<Rightarrow>
          if \<not> ok response then Some (catch_reject (Error (composeStatusMessage response)) st1)
          else
            (case json response of
               None \<Rightarrow> Some (catch_reject SyntaxError st1)
             | Some page_body \<Rightarrow>
                 if length page_body = 0 then
                   (if pageNum = 1
                    then Some (Inl (Message (''No '' @ kind @ '' exist in this repository.'')), st1)
                    else Some (Inr page_body, st1))
                 else
                   Option.bind (apiCallGet H loginInfo kind (pageNum + 1) mode st1)
                     (\<lambda>(outcome, st2).
                        case outcome of
                          Inl err \<Rightarrow> Some (catch_reject err st2)
                        | Inr rest \<Rightarrow> Some (Inr (page_body @ rest), st2))))"

section \<open>Create, update, delete\<close>

definition urlForCreate :: "loginInfo \<Rightarrow> string \<Rightarrow> string" where
  "urlForCreate loginInfo kind =
     ''https://api.github.com/repos/'' @ homeRepoOwner loginInfo @ ''/'' @
     homeRepoName loginInfo @ ''/'' @ kind"

definition fetchCreate ::
  "(loginInfo \<Rightarrow> string \<Rightarrow> string) \<Rightarrow> 'r host \<Rightarrow> loginInfo \<Rightarrow> string \<Rightarrow> package
     \<Rightarrow> state \<Rightarrow> 'r response option \<times> state" where
  "fetchCreate getUrl H loginInfo kind entryPackage st =
     fetch H \<lparr>req_url = getUrl loginInfo kind,
              req_method = ''POST'',
              req_headers = [(''Authorization'', makeBasicAuth H loginInfo),
                             (''Accept'', ''application/vnd.github.v3+json'')],
              req_body = Some (JSON_stringify st (body entryPackage))\<rparr> st"

text \<open>
  The three public operations return \<open>undefined\<close> on an invalid kind, after logging
  the error, and otherwise a promise that always resolves: \<open>Inr ()\<close> for both.
  \<open>Inl\<close> is an exception thrown before the request (by \<^verbatim>\<open>getLoginInfo\<close>,
  \<^verbatim>\<open>serializeEntry\<close> or \<^verbatim>\<open>packEntry\<close>), which nothing catches.
\<close>

definition apiCallCreate :: "'r host \<Rightarrow> element \<Rightarrow> string \<Rightarrow> state \<Rightarrow> (error + unit) \<times> state" where
  "apiCallCreate H entryNode kind st =
     (case validateKind kind of
        Inl err \<Rightarrow> (Inr (), writeLog (errorString H err) st)
      | Inr u \<Rightarrow>
          (case getLoginInfo H of
             Inl e \<Rightarrow> (Inl e, st)
           | Inr loginInfo \<Rightarrow>
               (case serializeEntry H entryNode kind st of
                  (Inl e, st1) \<Rightarrow> (Inl e, st1)
                | (Inr serializedEntry, st1) \<Rightarrow>
                    (case packEntry serializedEntry kind st1 of
                       (Inl e, st2) \<Rightarrow> (Inl e, st2)
                     | (Inr entryPackage, st2) \<Rightarrow>
                         (let kindSingular = butlast kind
                          in case fetchCreate urlForCreate H loginInfo kind entryPackage st2 of
                               (Some response, st3) \<Rightarrow>
                                 (Inr (),
                                  writeLog (''Created '' @ kindSingular @ '': '' @
                                            toString (newName (names entryPackage)) @ ''.'') st3)
                             | (None, st3) \<Rightarrow>
                                 (Inr (),
                                  (writeLog (''Creation of '' @ kindSingular @ '' '' @
                                             toString (newName (names entryPackage)) @
                                             '' failed due to error: '' @
                                             errorString H FetchFailed @ ''.'') st3)
                                  \<lparr>console := console st3 @ [FetchFailed]\<rparr>))))))"

definition urlForUpdate :: "loginInfo \<Rightarrow> string \<Rightarrow> jsval \<Rightarrow> string" where
  "urlForUpdate loginInfo kind sign =
     ''https://api.github.com/repos/'' @ homeRepoOwner loginInfo @ ''/'' @
     homeRepoName loginInfo @ ''/'' @ kind @ ''/'' @ toString sign"

definition fetchUpdate ::
  "(loginInfo \<Rightarrow> string \<Rightarrow> jsval \<Rightarrow> string) \<Rightarrow> 'r host \<Rightarrow> loginInfo \<Rightarrow> string \<Rightarrow> package
     \<Rightarrow> state \<Rightarrow> 'r response option \<times> state" where
  "fetchUpdate getUrl H loginInfo kind entryPackage st =
     fetch H \<lparr>req_url = getUrl loginInfo kind (apiCallSign (names entryPackage)),
              req_method = ''PATCH'',
              req_headers = [(''Authorization'', makeBasicAuth H loginInfo),
                             (''Accept'', ''application/vnd.github.v3+json'')],
              req_body = Some (JSON_stringify st (body entryPackage))\<rparr> st"

definition apiCallUpdate :: "'r host \<Rightarrow> element \<Rightarrow> string \<Rightarrow> state \<Rightarrow> (error + unit) \<times> state" where
  "apiCallUpdate H entryNode kind st =
     (case validateKind kind of
        Inl err \<Rightarrow> (Inr (), writeLog (errorString H err) st)
      | Inr u \<Rightarrow>
          (case getLoginInfo H of
             Inl e \<Rightarrow> (Inl e, st)
           | Inr loginInfo \<Rightarrow>
               (case serializeEntry H entryNode kind st of
                  (Inl e, st1) \<Rightarrow> (Inl e, st1)
                | (Inr serializedEntry, st1) \<Rightarrow>
                    (case packEntry serializedEntry kind st1 of
                       (Inl e, st2) \<Rightarrow> (Inl e, st2)
                     | (Inr entryPackage, st2) \<Rightarrow>
                         (let kindSingular = butlast kind
                          in case fetchUpdate urlForUpdate H loginInfo kind entryPackage st2 of
                               (Some response, st3) \<Rightarrow>
                                 (Inr (),
                                  writeLog (''Updated '' @ kindSingular @ '': '' @
                                            toString (originalName (names entryPackage)) @
                                            '' &#8680; '' @
                                            toString (newName (names entryPackage)) @ ''.'') st3)
                             | (None, st3) \<Rightarrow>
                                 (Inr (),
                                  (writeLog (''Update of '' @ kindSingular @ '' '' @
                                             toString (originalName (names entryPackage)) @
                                             '' &#8680; '' @
                                             toString (newName (names entryPackage)) @
                                             '' failed due to error: '' @
                                             errorString H FetchFailed @ ''.'') st3)
                                  \<lparr>console := console st3 @ [FetchFailed]\<rparr>))))))"

definition urlForDelete :: "loginInfo \<Rightarrow> string \<Rightarrow> jsval \<Rightarrow> string" where
  "urlForDelete loginInfo kind sign =
     ''https://api.github.com/repos/'' @ homeRepoOwner loginInfo @ ''/'' @
     homeRepoName loginInfo @ ''/'' @ kind @ ''/'' @ toString sign"

definition fetchDelete ::
  "(loginInfo \<Rightarrow> string \<Rightarrow> jsval \<Rightarrow> string) \<Rightarrow> 'r host \<Rightarrow> loginInfo \<Rightarrow> string \<Rightarrow> package
     \<Rightarrow> state \<Rightarrow> 'r response option \<times> state" where
  "fetchDelete getUrl H loginInfo kind entryPackage st =
     fetch H \<lparr>req_url = getUrl loginInfo kind (apiCallSign (names entryPackage)),
              req_method = ''DELETE'',
              req_headers = [(''Authorization'', makeBasicAuth H loginInfo),
                             (''Accept'', ''application/vnd.github.v3+json'')],
              req_body = None\<rparr> st"

definition apiCallDelete :: "'r host \<Rightarrow> element \<Rightarrow> string \<Rightarrow> state \<Rightarrow> (error + unit) \<times> state" where
  "apiCallDelete H entryNode kind st =
     (case validateKind kind of
        Inl err \<Rightarrow> (Inr (), writeLog (errorString H err) st)
      | Inr u \<Rightarrow>
          (case getLoginInfo H of
             Inl e \<Rightarrow> (Inl e, st)
           | Inr loginInfo \<Rightarrow>
               (case serializeEntry H entryNode kind st of
                  (Inl e, st1) \<Rightarrow> (Inl e, st1)
                | (Inr serializedEntry, st1) \<Rightarrow>
                    (case packEntry serializedEntry kind st1 of
                       (Inl e, st2) \<Rightarrow> (Inl e, st2)
                     | (Inr entryPackage, st2) \<Rightarrow>
                         (let kindSingular = butlast kind
                          in case fetchDelete urlForDelete H loginInfo kind entryPackage st2 of
                               (Some response, st3) \<Rightarrow>
                                 (Inr (),
                                  writeLog (''Deleted '' @ kindSingular @ '': '' @
                                            toString (originalName (names entryPackage)) @ ''.'') st3)
                             | (None, st3) \<Rightarrow>
                                 (Inr (),
                                  (writeLog (''Deletion of '' @ kindSingular @ '' '' @
                                             toString (originalName (names entryPackage)) @
                                             '' failed due to error: '' @
                                             errorString H FetchFailed @ ''.'') st3)
                                  \<lparr>console := console st3 @ [FetchFailed]\<rparr>))))))"

section \<open>Notions used by the properties\<close>

text \<open>The request that \<^verbatim>\<open>fetchGet(urlForGet, ...)\<close> sends for a page.\<close>

definition get_request :: "'r host \<Rightarrow> loginInfo \<Rightarrow> string \<Rightarrow> nat \<Rightarrow> string \<Rightarrow> request" where
  "get_request H loginInfo kind pageNum mode =
     \<lparr>req_url = urlForGet loginInfo kind pageNum mode,
      req_method = ''GET'',
      req_headers = [(''Authorization'', makeBasicAuth H loginInfo),
                     (''Accept'', ''application/vnd.github.v3+json'')],
      req_body = None\<rparr>"

text \<open>The server answers the request for a page with a success status and these records.\<close>

definition page_served :: "'r host \<Rightarrow> loginInfo \<Rightarrow> string \<Rightarrow> string \<Rightarrow> nat \<Rightarrow> 'r list \<Rightarrow> bool" where
  "page_served H loginInfo kind mode pageNum page =
     (case network H (get_request H loginInfo kind pageNum mode) of
        None \<Rightarrow> False
      | Some response \<Rightarrow> ok response \<and> json response = Some page)"

text \<open>The server returns this sequence of pages, from page \<open>pageNum\<close> on.\<close>

fun serves :: "'r host \<Rightarrow> loginInfo \<Rightarrow> string \<Rightarrow> string \<Rightarrow> nat \<Rightarrow> 'r list list \<Rightarrow> bool" where
  "serves H loginInfo kind mode pageNum [] = True"
| "serves H loginInfo kind mode pageNum (page # pages) =
     (page_served H loginInfo kind mode pageNum page \<and> serves H loginInfo kind mode (pageNum + 1) pages)"

text \<open>The GET requests for \<open>n\<close> successive pages.\<close>

fun get_requests :: "'r host \<Rightarrow> loginInfo \<Rightarrow> string \<Rightarrow> string \<Rightarrow> nat \<Rightarrow> nat \<Rightarrow> request list" where
  "get_requests H loginInfo kind mode pageNum 0 = []"
| "get_requests H loginInfo kind mode pageNum (Suc n) =
     get_request H loginInfo kind pageNum mode # get_requests H loginInfo kind mode (pageNum + 1) n"

text \<open>
  The escaping of a URL path segment that the specification speaks of: every character
  that is not unreserved (a letter, a digit, or one of \<open>-_.~\<close>) is written as \<open>%\<close>
  followed by the two hexadecimal digits of its code. The source has no counterpart.
\<close>

definition is_unreserved :: "char \<Rightarrow> bool" where
  "is_unreserved c =
     (let n = (of_char c :: nat)
      in (48 \<le> n \<and> n \<le> 57) \<or> (65 \<le> n \<and> n \<le> 90) \<or> (97 \<le> n \<and> n \<le> 122) \<or>
         c \<in> set ''-_.~'')"

definition hex_digit :: "nat \<Rightarrow> char" where
  "hex_digit n = ''0123456789ABCDEF'' ! n"

definition percent_encode :: "char \<Rightarrow> string" where
  "percent_encode c =
     (if is_unreserved c then [c]
      else [CHR ''%'', hex_digit (of_char c div 16), hex_digit (of_char c mod 16)])"

definition url_path_escape :: "string \<Rightarrow> string" where
  "url_path_escape s = concat (map percent_encode s)"

text \<open>
  The path of a URL ends where its query (\<open>?\<close>) or its fragment (\<open>#\<close>) begins; the
  final path segment is what follows the last \<open>/\<close> of the path.
\<close>

definition url_path :: "string \<Rightarrow> string" where
  "url_path url = takeWhile (\<lambda>c. c \<noteq> CHR ''?'' \<and> c \<noteq> CHR ''#'') url"

definition last_path_segment :: "string \<Rightarrow> string" where
  "last_path_segment url = rev (takeWhile (\<lambda>c. c \<noteq> CHR ''/'') (rev (url_path url)))"

section \<open>Example inputs\<close>

definition resp :: "int \<Rightarrow> string \<Rightarrow> nat response" where
  "resp s t = \<lparr>status = s, statusText = t, json = None\<rparr>"

definition login0 :: loginInfo where
  "login0 = \<lparr>gitHubUsername = ''octocat'', personalAccessToken = ''secret'',
             homeRepoOwner = ''octocat'', homeRepoName = ''hello-world'',
             templateRepoOwner = ''octocat'', templateRepoName = ''template''\<rparr>"

fun error_text :: "error \<Rightarrow> string" where
  "error_text (ValidationError k) = ''Error: invalid kind '' @ k"
| "error_text (Error m) = ''Error: '' @ m"
| "error_text (Message m) = m"
| "error_text e = ''Error''"

text \<open>A server that holds the given pages of records, numbered from \<open>p\<close>.\<close>

fun pages_network ::
  "loginInfo \<Rightarrow> string \<Rightarrow> string \<Rightarrow> nat \<Rightarrow> nat list list \<Rightarrow> request \<Rightarrow> nat response option" where
  "pages_network li kind mode p [] req = None"
| "pages_network li kind mode p (page # pages) req =
     (if req_url req = urlForGet li kind p mode
      then Some \<lparr>status = 200, statusText = ''OK'', json = Some page\<rparr>
      else pages_network li kind mode (p + 1) pages req)"

text \<open>
  A host in the time zone UTC whose server holds the given pages of labels of the home
  repository and answers no other request; its \<open>base64_encode\<close> leaves the text as
  it is (no property below depends on it).
\<close>

definition example_host :: "nat list list \<Rightarrow> nat host" where
  "example_host pages =
     \<lparr>getLoginInfo = Inr login0,
      base64_encode = (\<lambda>s. s),
      localTZA = (\<lambda>t. 0),
      errorString = error_text,
      network = pages_network login0 ''labels'' ''list'' 1 pages\<rparr>"

definition st0 :: state where
  "st0 = \<lparr>heap = [], modal_log = [], alerts = [], console = [], requests = []\<rparr>"

text \<open>Two time zones: UTC, and one hour east of it.\<close>

definition utc :: "int \<Rightarrow> int" where
  "utc t = 0"

definition utc_plus_1 :: "int \<Rightarrow> int" where
  "utc_plus_1 t = 3600000"

definition due_date_with_time :: element where
  "due_date_with_time =
     Element (Some ''2024-03-05'') [(''name'', ''due-date''), (''data-orig-time'', ''14:30:00'')] []"

definition due_date_without_time :: element where
  "due_date_without_time = Element (Some ''2024-03-05'') [(''name'', ''due-date'')] []"

definition due_date_empty :: element where
  "due_date_empty = Element (Some []) [(''name'', ''due-date'')] []"

text \<open>The form of the label \<open>bug\<close>, renamed to \<open>defect\<close>, and its serialized entry.\<close>

definition label_node :: element where
  "label_node =
     Element None [(''class'', ''label-entry'')]
       [Element (Some ''defect'') [(''name'', ''name''), (''data-orig-val'', ''bug'')] [],
        Element (Some ''#d73a4a'') [(''name'', ''color'')] [],
        Element (Some ''Something is not working'') [(''name'', ''description'')] []]"

definition label_entry0 :: object where
  "label_entry0 =
     [(''name'', Str ''defect''), (''originalName'', Str ''bug''), (''color'', Str ''d73a4a''),
      (''description'', Str ''Something is not working'')]"

definition st_label :: state where
  "st_label = \<lparr>heap = [label_entry0], modal_log = [], alerts = [], console = [], requests = []\<rparr>"

text \<open>The form of a new milestone in state \<open>open\<close>, with the given due-date field.\<close>

definition new_milestone_node :: "element \<Rightarrow> element" where
  "new_milestone_node dueDate =
     Element None [(''data-number'', ''null'')]
       [Element (Some ''v1.0'') [(''name'', ''title'')] [],
        Element (Some ''open'') [(''name'', ''state'')] [],
        Element (Some ''First release'') [(''name'', ''description'')] [],
        dueDate]"

text \<open>The serialized entry of the existing milestone number 7.\<close>

definition milestone_entry0 :: object where
  "milestone_entry0 =
     [(''title'', Str ''v1.0''), (''originalTitle'', Str ''v1''), (''state'', Str ''open''),
      (''description'', Str ''First release''), (''due_on'', Null), (''number'', Num 7)]"

definition st_milestone :: state where
  "st_milestone =
     \<lparr>heap = [milestone_entry0], modal_log = [], alerts = [], console = [], requests = []\<rparr>"

section \<open>Properties\<close>

subsection \<open>Rendering of numbers\<close>

lemma string_of_int_401: "string_of_int 401 = ''401''"
  by (simp add: string_of_int_def string_of_nat.simps digit_char_def)

lemma string_of_int_403: "string_of_int 403 = ''403''"
  by (simp add: string_of_int_def string_of_nat.simps digit_char_def)

lemma string_of_int_404: "string_of_int 404 = ''404''"
  by (simp add: string_of_int_def string_of_nat.simps digit_char_def)

subsection \<open>Dates\<close>

lemma stringToNumber_examples:
  "stringToNumber ''2024'' = Some (Num 2024)"
  "stringToNumber ''03'' = Some (Num 3)"
  "stringToNumber ''05'' = Some (Num 5)"
  "stringToNumber ''14'' = Some (Num 14)"
  "stringToNumber ''30'' = Some (Num 30)"
  "stringToNumber ''00'' = Some (Num 0)"
  by (simp_all add: stringToNumber_def is_digit_def nat_of_digits_def digit_val_def)

lemma MakeDay_example: "MakeDay 2024 2 5 = 19787"
  by (simp add: MakeDay_def Let_def)

lemma newDate_example:
  "newDate tz (Num 2024) (Num 2) (Num 5) (Str ''14'') (Str ''30'') (Str ''00'') =
     Inr (TimeClip (1709649000000 - tz 1709649000000))"
  by (simp add: newDate_def stringToNumber_examples MakeDate_def MakeDay_example MakeTime_def msPerDay_def)

lemma newDate_midnight:
  "newDate tz (Num 2024) (Num 2) (Num 5) (Num 0) (Num 0) (Num 0) =
     Inr (TimeClip (1709596800000 - tz 1709596800000))"
  by (simp add: newDate_def MakeDate_def MakeDay_example MakeTime_def msPerDay_def)

lemma civil_of_day_example: "civil_of_day 19787 = (2024, 3, 5)"
  by code_simp

lemma pad_examples:
  "pad 4 2024 = ''2024''" "pad 2 3 = ''03''" "pad 2 5 = ''05''" "pad 2 14 = ''14''"
  "pad 2 13 = ''13''" "pad 2 30 = ''30''" "pad 2 0 = ''00''" "pad 3 0 = ''000''"
  by (simp_all add: pad_def string_of_int_def string_of_nat.simps digit_char_def numeral_2_eq_2)

lemma isoString_examples:
  "isoString 1709649000000 = ''2024-03-05T14:30:00.000Z''"
  "isoString 1709596800000 = ''2024-03-05T00:00:00.000Z''"
  "isoString 1709645400000 = ''2024-03-05T13:30:00.000Z''"
  by (simp_all add: isoString_def msPerDay_def civil_of_day_example pad_examples)

lemma replace_examples:
  "replace ''.000Z'' ''Z'' ''2024-03-05T14:30:00.000Z'' = ''2024-03-05T14:30:00Z''"
  "replace ''.000Z'' ''Z'' ''2024-03-05T00:00:00.000Z'' = ''2024-03-05T00:00:00Z''"
  "replace ''.000Z'' ''Z'' ''2024-03-05T13:30:00.000Z'' = ''2024-03-05T13:30:00Z''"
  by simp_all

text \<open>The two dates of the specification's example, in any time zone.\<close>

lemma formatDate_example:
  assumes "el_value n = Some ''2024-03-05''" and "getAttribute n ''data-orig-time'' = Str ''14:30:00''"
  shows "formatDate tz (Some n) =
           (case toISOString (TimeClip (1709649000000 - tz 1709649000000)) of
              Inl e \<Rightarrow> Inl e
            | Inr s \<Rightarrow> Inr (Str (replace ''.000Z'' ''Z'' s)))"
  using assms
  by (simp add: formatDate_def stringToNumber_examples nth_or_undefined_def minus_js_def
        newDate_example)

lemma formatDate_midnight:
  assumes "el_value n = Some ''2024-03-05''" and "getAttribute n ''data-orig-time'' = Null"
  shows "formatDate tz (Some n) =
           (case toISOString (TimeClip (1709596800000 - tz 1709596800000)) of
              Inl e \<Rightarrow> Inl e
            | Inr s \<Rightarrow> Inr (Str (replace ''.000Z'' ''Z'' s)))"
  using assms
  by (simp add: formatDate_def stringToNumber_examples nth_or_undefined_def minus_js_def
        newDate_midnight)

text \<open>
  C4. In a host whose time zone is UTC, \<^verbatim>\<open>formatDate\<close> of a node with the date
  \<open>2024-03-05\<close> and the time attribute \<open>14:30:00\<close> is exactly \<open>2024-03-05T14:30:00Z\<close>, and
  with that date and no time attribute it is exactly \<open>2024-03-05T00:00:00Z\<close>. In every
  time zone, a node with no date value gives \<open>null\<close>.
\<close>

theorem formatDate_in_utc:
  "(el_value n = Some ''2024-03-05'' \<and> getAttribute n ''data-orig-time'' = Str ''14:30:00'' \<longrightarrow>
      formatDate utc (Some n) = Inr (Str ''2024-03-05T14:30:00Z'')) \<and>
   (el_value n = Some ''2024-03-05'' \<and> getAttribute n ''data-orig-time'' = Null \<longrightarrow>
      formatDate utc (Some n) = Inr (Str ''2024-03-05T00:00:00Z'')) \<and>
   (el_value n = None \<or> el_value n = Some [] \<longrightarrow> formatDate tz (Some n) = Inr Null)"
proof (intro conjI impI)
  assume "el_value n = Some ''2024-03-05'' \<and> getAttribute n ''data-orig-time'' = Str ''14:30:00''"
  then show "formatDate utc (Some n) = Inr (Str ''2024-03-05T14:30:00Z'')"
    by (simp add: formatDate_example utc_def TimeClip_def toISOString_def isoString_examples
          replace_examples)
next
  assume "el_value n = Some ''2024-03-05'' \<and> getAttribute n ''data-orig-time'' = Null"
  then show "formatDate utc (Some n) = Inr (Str ''2024-03-05T00:00:00Z'')"
    by (simp add: formatDate_midnight utc_def TimeClip_def toISOString_def isoString_examples
          replace_examples)
next
  assume "el_value n = None \<or> el_value n = Some []"
  then show "formatDate tz (Some n) = Inr Null"
    by (auto simp: formatDate_def)
qed

theorem formatDate_in_utc_witness:
  "formatDate utc (Some due_date_with_time) = Inr (Str ''2024-03-05T14:30:00Z'') \<and>
   formatDate utc (Some due_date_without_time) = Inr (Str ''2024-03-05T00:00:00Z'') \<and>
   formatDate utc_plus_1 (Some due_date_empty) = Inr Null"
  using formatDate_in_utc [of due_date_with_time utc]
        formatDate_in_utc [of due_date_without_time utc]
        formatDate_in_utc [of due_date_empty utc_plus_1]
  by (simp add: due_date_with_time_def due_date_without_time_def due_date_empty_def getAttribute_def)

text \<open>
  One hour east of UTC the same node gives \<open>2024-03-05T13:30:00Z\<close>: the date and the
  time are read as local time.
\<close>

theorem formatDate_east_of_utc:
  "formatDate utc_plus_1 (Some due_date_with_time) = Inr (Str ''2024-03-05T13:30:00Z'') \<and>
   formatDate utc_plus_1 (Some due_date_with_time) \<noteq> Inr (Str ''2024-03-05T14:30:00Z'')"
proof -
  have "el_value due_date_with_time = Some ''2024-03-05''"
    and "getAttribute due_date_with_time ''data-orig-time'' = Str ''14:30:00''"
    by (simp_all add: due_date_with_time_def getAttribute_def)
  then have "formatDate utc_plus_1 (Some due_date_with_time) = Inr (Str ''2024-03-05T13:30:00Z'')"
    by (simp add: formatDate_example utc_plus_1_def TimeClip_def toISOString_def
          isoString_examples replace_examples)
  then show ?thesis by simp
qed

subsection \<open>The status interpreter\<close>

text \<open>
  C9. \<^verbatim>\<open>composeStatusMessage\<close> is a function of the response alone. For a response
  that is ok the message is the status followed by \<open>status OK.\<close>; the statuses 401,
  403 and 404 each have a message of their own, and the one for 404 contains
  \<open>Repository not found\<close>; every other status that is not ok has the generic message.
\<close>

theorem composeStatusMessage_cases:
  "(ok r \<longrightarrow> composeStatusMessage r = string_of_int (status r) @ '' status OK.'') \<and>
   (status r = 401 \<longrightarrow>
      composeStatusMessage r =
        ''401 '' @ statusText r @ ''. Please check the input values of your login information.'') \<and>
   (status r = 403 \<longrightarrow>
      composeStatusMessage r =
        ''403 '' @ statusText r @
        ''. The GitHub server refused to your request. Maybe you have exceeded your rate limit. Please wait for a little while.'') \<and>
   (status r = 404 \<longrightarrow>
      composeStatusMessage r =
        ''404 '' @ statusText r @
        ''. Repository not found. Please check the input values of your login information.'' \<and>
      sublist ''Repository not found'' (composeStatusMessage r)) \<and>
   (\<not> ok r \<and> status r \<noteq> 401 \<and> status r \<noteq> 403 \<and> status r \<noteq> 404 \<longrightarrow>
      composeStatusMessage r = string_of_int (status r) @ '' '' @ statusText r @ ''. Error occurred.'')"
proof -
  have m404: "status r = 404 \<Longrightarrow> composeStatusMessage r =
      ''404 '' @ statusText r @
      ''. Repository not found. Please check the input values of your login information.''"
    by (simp add: composeStatusMessage_def ok_def string_of_int_404)
  have "sublist ''Repository not found''
          ((''404 '' @ statusText r @ ''. '') @ ''Repository not found'' @
           ''. Please check the input values of your login information.'')"
    by (rule sublist_appendI)
  then have s404: "status r = 404 \<Longrightarrow> sublist ''Repository not found'' (composeStatusMessage r)"
    by (simp add: m404)
  show ?thesis
    using m404 s404
    by (simp add: composeStatusMessage_def ok_def string_of_int_401 string_of_int_403)
qed

theorem composeStatusMessage_cases_witness:
  "composeStatusMessage (resp 200 ''OK'') = ''200 status OK.'' \<and>
   composeStatusMessage (resp 401 ''Unauthorized'') =
     ''401 Unauthorized. Please check the input values of your login information.'' \<and>
   composeStatusMessage (resp 403 ''Forbidden'') =
     ''403 Forbidden. The GitHub server refused to your request. Maybe you have exceeded your rate limit. Please wait for a little while.'' \<and>
   sublist ''Repository not found'' (composeStatusMessage (resp 404 ''Not Found'')) \<and>
   composeStatusMessage (resp 500 ''Internal Server Error'') = ''500 Internal Server Error. Error occurred.''"
proof -
  have e: "string_of_int 200 = ''200''" "string_of_int 500 = ''500''"
    by (simp_all add: string_of_int_def string_of_nat.simps digit_char_def)
  have "composeStatusMessage (resp 200 ''OK'') = ''200 status OK.''"
    using composeStatusMessage_cases [of "resp 200 ''OK''"] by (simp add: resp_def ok_def e)
  moreover have "composeStatusMessage (resp 401 ''Unauthorized'') =
     ''401 Unauthorized. Please check the input values of your login information.''"
    using composeStatusMessage_cases [of "resp 401 ''Unauthorized''"] by (simp add: resp_def)
  moreover have "composeStatusMessage (resp 403 ''Forbidden'') =
     ''403 Forbidden. The GitHub server refused to your request. Maybe you have exceeded your rate limit. Please wait for a little while.''"
    using composeStatusMessage_cases [of "resp 403 ''Forbidden''"] by (simp add: resp_def)
  moreover have "status (resp 404 ''Not Found'') = 404"
    by (simp add: resp_def)
  then have "sublist ''Repository not found'' (composeStatusMessage (resp 404 ''Not Found''))"
    using composeStatusMessage_cases [of "resp 404 ''Not Found''"] by blast
  moreover have "composeStatusMessage (resp 500 ''Internal Server Error'') =
     ''500 Internal Server Error. Error occurred.''"
    using composeStatusMessage_cases [of "resp 500 ''Internal Server Error''"]
    by (simp add: resp_def ok_def e)
  ultimately show ?thesis by blast
qed

subsection \<open>The entry codec\<close>

lemma bindE_Inr: "bindE m f = Inr y \<longleftrightarrow> (\<exists>x. m = Inr x \<and> f x = Inr y)"
  by (cases m) (simp_all add: bindE_def)

lemma label_entry_keys:
  "label_entry node = Inr obj \<Longrightarrow> map fst obj = [''name'', ''originalName'', ''color'', ''description'']"
  by (auto simp: label_entry_def bindE_Inr)

lemma existing_milestone_entry_keys:
  "existing_milestone_entry tz node = Inr obj \<Longrightarrow>
     map fst obj = [''title'', ''originalTitle'', ''state'', ''description'', ''due_on'', ''number'']"
  by (auto simp: existing_milestone_entry_def bindE_Inr)

lemma new_milestone_entry_keys:
  "new_milestone_entry tz node = Inr obj \<Longrightarrow>
     map fst obj = [''title'', ''state'', ''description'', ''due_on''] \<or>
     map fst obj = [''title'', ''state'', ''description'']"
  by (auto simp: new_milestone_entry_def bindE_Inr split: if_splits)

lemma has_prop_keys: "has_prop obj k \<longleftrightarrow> k \<in> set (map fst obj)"
  by (simp add: has_prop_def)

lemma has_prop_delete_prop: "has_prop (delete_prop k obj) k' \<longleftrightarrow> k' \<noteq> k \<and> has_prop obj k'"
  by (induction obj) (auto simp: has_prop_def delete_prop_def)

lemma map_of_delete_prop: "k' \<noteq> k \<Longrightarrow> map_of (delete_prop k obj) k' = map_of obj k'"
  by (induction obj) (auto simp: delete_prop_def)

text \<open>\<^verbatim>\<open>packEntry\<close> on an object: the package, and the object it leaves in the heap.\<close>

lemma packEntry_Ref:
  assumes "r < length (heap st)"
  shows "packEntry (Ref r) kind st =
           (Inr \<lparr>body = Ref r,
                 names = \<lparr>originalName = get_prop (heap st ! r) (if kind = ''labels'' then ''originalName'' else ''originalTitle''),
                          newName = get_prop (heap st ! r) (if kind = ''labels'' then ''name'' else ''title''),
                          apiCallSign = get_prop (heap st ! r) (if kind = ''labels'' then ''originalName'' else ''number'')\<rparr>\<rparr>,
            st\<lparr>heap := (heap st)[r := delete_prop (if kind = ''labels'' then ''originalName'' else ''originalTitle'') (heap st ! r)]\<rparr>)"
  using assms by (simp add: packEntry_def read_prop_def delete_property_def bindE_def)

text \<open>A successful \<^verbatim>\<open>serializeEntry\<close> returns a new object, built by the branch of the kind.\<close>

lemma serializeEntry_Inr:
  assumes "validateKind kind = Inr ()" and "serializeEntry H x kind st = (Inr raw, st1)"
  obtains obj where "raw = Ref (length (heap st))" and "st1 = st\<lparr>heap := heap st @ [obj]\<rparr>"
    and "if kind = ''labels'' then label_entry x = Inr obj
         else if getAttribute x ''data-number'' \<noteq> Str ''null''
              then existing_milestone_entry (localTZA H) x = Inr obj
              else new_milestone_entry (localTZA H) x = Inr obj"
  using assms
  by (auto simp: serializeEntry_def alloc_def split: sum.splits if_splits)

lemma serializeEntry_label_node:
  "serializeEntry (example_host []) label_node ''labels'' st0 = (Inr (Ref 0), st_label)"
  by (simp add: serializeEntry_def validateKind_def label_entry_def label_node_def bindE_def
        field_prop_def field_attr_def querySelector_def getProperty_def getValue_def
        getAttribute_def alloc_def st0_def st_label_def label_entry0_def)

text \<open>
  C7. For every form \<open>x\<close> and every valid kind, when \<^verbatim>\<open>serializeEntry\<close> returns an
  entry, \<^verbatim>\<open>packEntry\<close> of that entry returns a package, and its body has neither an
  \<open>originalName\<close> nor an \<open>originalTitle\<close> field.
\<close>

theorem pack_serialize_body:
  assumes "validateKind kind = Inr ()" and "serializeEntry H x kind st = (Inr raw, st1)"
  shows "\<exists>r nm st2. packEntry raw kind st1 = (Inr \<lparr>body = Ref r, names = nm\<rparr>, st2) \<and>
           r < length (heap st2) \<and>
           \<not> has_prop (heap st2 ! r) ''originalName'' \<and>
           \<not> has_prop (heap st2 ! r) ''originalTitle''"
proof -
  from assms obtain obj where raw: "raw = Ref (length (heap st))"
    and st1: "st1 = st\<lparr>heap := heap st @ [obj]\<rparr>"
    and obj: "if kind = ''labels'' then label_entry x = Inr obj
         else if getAttribute x ''data-number'' \<noteq> Str ''null''
              then existing_milestone_entry (localTZA H) x = Inr obj
              else new_milestone_entry (localTZA H) x = Inr obj"
    by (rule serializeEntry_Inr)
  let ?k = "if kind = ''labels'' then ''originalName'' else ''originalTitle''"
  let ?r = "length (heap st)"
  have r: "?r < length (heap st1)" by (simp add: st1)
  have at: "heap st1 ! ?r = obj" by (simp add: st1)
  have keys: "(kind = ''labels'' \<and> map fst obj = [''name'', ''originalName'', ''color'', ''description'']) \<or>
              (kind \<noteq> ''labels'' \<and> ''originalName'' \<notin> set (map fst obj))"
    using obj label_entry_keys existing_milestone_entry_keys [of "localTZA H" x obj]
      new_milestone_entry_keys [of "localTZA H" x obj]
    by (auto split: if_splits)
  have "\<not> has_prop (delete_prop ?k obj) ''originalName'' \<and> \<not> has_prop (delete_prop ?k obj) ''originalTitle''"
    using keys by (cases "kind = ''labels''") (simp_all add: has_prop_delete_prop, simp_all add: has_prop_keys)
  then show ?thesis
    unfolding raw packEntry_Ref [OF r] at
    by (intro exI conjI[rotated]) (simp_all add: st1)
qed

theorem pack_serialize_body_witness:
  "validateKind ''labels'' = Inr () \<and>
   serializeEntry (example_host []) label_node ''labels'' st0 = (Inr (Ref 0), st_label) \<and>
   (\<exists>r nm st2. packEntry (Ref 0) ''labels'' st_label = (Inr \<lparr>body = Ref r, names = nm\<rparr>, st2) \<and>
           r < length (heap st2) \<and>
           \<not> has_prop (heap st2 ! r) ''originalName'' \<and>
           \<not> has_prop (heap st2 ! r) ''originalTitle'')"
proof -
  have v: "validateKind ''labels'' = Inr ()"
    by (simp add: validateKind_def)
  from pack_serialize_body [OF v serializeEntry_label_node] v serializeEntry_label_node
  show ?thesis by simp
qed

text \<open>
  C3. \<^verbatim>\<open>packEntry\<close> on the serialized entry of the label \<open>bug\<close>: before the call the
  caller's entry has the field \<open>originalName\<close>; the call returns the package and leaves
  the caller's entry, at the same address, without that field.
\<close>

theorem packEntry_deletes_from_the_callers_entry:
  "has_prop (heap st_label ! 0) ''originalName'' \<and>
   packEntry (Ref 0) ''labels'' st_label =
     (Inr \<lparr>body = Ref 0,
           names = \<lparr>originalName = Str ''bug'', newName = Str ''defect'', apiCallSign = Str ''bug''\<rparr>\<rparr>,
      st_label\<lparr>heap := [[(''name'', Str ''defect''), (''color'', Str ''d73a4a''),
                          (''description'', Str ''Something is not working'')]]\<rparr>) \<and>
   \<not> has_prop (heap (snd (packEntry (Ref 0) ''labels'' st_label)) ! 0) ''originalName''"
  by (simp add: packEntry_def read_prop_def delete_property_def bindE_def st_label_def
        label_entry0_def has_prop_def get_prop_def delete_prop_def)

text \<open>
  C6. \<^verbatim>\<open>serializeEntry\<close> on the form of a new milestone whose state field has the
  value \<open>open\<close>: with no due date the entry has the fields title, state and description,
  and its state is \<open>undefined\<close>; with a due date the entry has the field \<open>due_on\<close> as
  well, and its state is \<open>open\<close>.
\<close>

theorem serializeEntry_new_milestone:
  "getAttribute (new_milestone_node due_date_empty) ''data-number'' = Str ''null'' \<and>
   field_prop (new_milestone_node due_date_empty) ''state'' ''value'' = Inr (Str ''open'') \<and>
   serializeEntry (example_host []) (new_milestone_node due_date_empty) ''milestones'' st0 =
     (Inr (Ref 0),
      st0\<lparr>heap := [[(''title'', Str ''v1.0''), (''state'', Undefined),
                     (''description'', Str ''First release'')]]\<rparr>) \<and>
   serializeEntry (example_host []) (new_milestone_node due_date_with_time) ''milestones'' st0 =
     (Inr (Ref 0),
      st0\<lparr>heap := [[(''title'', Str ''v1.0''), (''state'', Str ''open''),
                     (''description'', Str ''First release''),
                     (''due_on'', Str ''2024-03-05T14:30:00Z'')]]\<rparr>)"
proof -
  have d: "formatDate (\<lambda>t. 0) (Some due_date_with_time) = Inr (Str ''2024-03-05T14:30:00Z'')"
    by (simp add: formatDate_example due_date_with_time_def getAttribute_def TimeClip_def
          toISOString_def isoString_examples replace_examples)
  have q: "querySelector (new_milestone_node due_date_with_time) ''due-date'' = Some due_date_with_time"
    by (simp add: querySelector_def new_milestone_node_def due_date_with_time_def)
  have "new_milestone_entry (\<lambda>t. 0) (new_milestone_node due_date_with_time) =
          Inr [(''title'', Str ''v1.0''), (''state'', Str ''open''),
               (''description'', Str ''First release''),
               (''due_on'', Str ''2024-03-05T14:30:00Z'')]"
    unfolding new_milestone_entry_def q d
    by (simp add: new_milestone_node_def due_date_with_time_def bindE_def field_prop_def
          querySelector_def getProperty_def getValue_def)
  then have "serializeEntry (example_host []) (new_milestone_node due_date_with_time) ''milestones'' st0 =
     (Inr (Ref 0),
      st0\<lparr>heap := [[(''title'', Str ''v1.0''), (''state'', Str ''open''),
                     (''description'', Str ''First release''),
                     (''due_on'', Str ''2024-03-05T14:30:00Z'')]]\<rparr>)"
    by (simp add: serializeEntry_def validateKind_def example_host_def alloc_def st0_def
          getAttribute_def new_milestone_node_def)
  moreover have "serializeEntry (example_host []) (new_milestone_node due_date_empty) ''milestones'' st0 =
     (Inr (Ref 0),
      st0\<lparr>heap := [[(''title'', Str ''v1.0''), (''state'', Undefined),
                     (''description'', Str ''First release'')]]\<rparr>)"
    by (simp add: serializeEntry_def validateKind_def new_milestone_entry_def new_milestone_node_def
        due_date_empty_def bindE_def field_prop_def querySelector_def
        getProperty_def getValue_def getAttribute_def alloc_def st0_def)
  moreover have "getAttribute (new_milestone_node due_date_empty) ''data-number'' = Str ''null''"
    by (simp add: getAttribute_def new_milestone_node_def)
  moreover have "field_prop (new_milestone_node due_date_empty) ''state'' ''value'' = Inr (Str ''open'')"
    by (simp add: field_prop_def querySelector_def new_milestone_node_def getProperty_def getValue_def)
  ultimately show ?thesis by simp
qed

text \<open>The request that \<^verbatim>\<open>fetchUpdate(urlForUpdate, ...)\<close> sends.\<close>

lemma fetchUpdate_request:
  "fetchUpdate urlForUpdate H li kind pkg st =
     (network H \<lparr>req_url = urlForUpdate li kind (apiCallSign (names pkg)),
                 req_method = ''PATCH'',
                 req_headers = [(''Authorization'', makeBasicAuth H li),
                                (''Accept'', ''application/vnd.github.v3+json'')],
                 req_body = Some (JSON_stringify st (body pkg))\<rparr>,
      st\<lparr>requests := requests st @
            [\<lparr>req_url = urlForUpdate li kind (apiCallSign (names pkg)),
              req_method = ''PATCH'',
              req_headers = [(''Authorization'', makeBasicAuth H li),
                             (''Accept'', ''application/vnd.github.v3+json'')],
              req_body = Some (JSON_stringify st (body pkg))\<rparr>]\<rparr>)"
  by (simp add: fetchUpdate_def fetch_def)

lemma JSON_stringify_member:
  assumes "r < length (heap st)" and "(k, Num n) \<in> set (heap st ! r)"
  shows "\<exists>ms. JSON_stringify st (Ref r) = JSON_object ms \<and> (k, Num n) \<in> set ms"
  using assms by (force simp: JSON_stringify_def)

text \<open>
  C10. \<^verbatim>\<open>packEntry\<close> on an entry returns a package whose body is that entry with one
  field removed and nothing else: \<open>originalTitle\<close> for a milestone, \<open>originalName\<close> for
  a label. So for every milestone entry that carries a \<open>number\<close> field, the body still
  has the \<open>number\<close> field with its value, and the body of the PATCH request that
  \<^verbatim>\<open>fetchUpdate\<close> sends for the package has the member \<open>number\<close> with that value.
\<close>

theorem packEntry_keeps_number:
  assumes "r < length (heap st)"
  shows "\<exists>nm st'.
           packEntry (Ref r) kind st = (Inr \<lparr>body = Ref r, names = nm\<rparr>, st') \<and>
           heap st' = (heap st)[r := delete_prop (if kind = ''labels'' then ''originalName''
                                                  else ''originalTitle'') (heap st ! r)] \<and>
           (map_of (heap st ! r) ''number'' = Some (Num n) \<longrightarrow>
              map_of (heap st' ! r) ''number'' = Some (Num n) \<and>
              (\<exists>ms. req_body (last (requests (snd (fetchUpdate urlForUpdate H li kind
                                                     \<lparr>body = Ref r, names = nm\<rparr> st')))) =
                      Some (JSON_object ms) \<and>
                    (''number'', Num n) \<in> set ms))"
proof -
  let ?k = "if kind = ''labels'' then ''originalName'' else ''originalTitle''"
  let ?obj = "delete_prop ?k (heap st ! r)"
  let ?st' = "st\<lparr>heap := (heap st)[r := ?obj]\<rparr>"
  let ?nm = "\<lparr>originalName = get_prop (heap st ! r) ?k,
             newName = get_prop (heap st ! r) (if kind = ''labels'' then ''name'' else ''title''),
             apiCallSign = get_prop (heap st ! r) (if kind = ''labels'' then ''originalName'' else ''number'')\<rparr>"
  have pack: "packEntry (Ref r) kind st = (Inr \<lparr>body = Ref r, names = ?nm\<rparr>, ?st')"
    by (rule packEntry_Ref [OF assms])
  have len: "r < length (heap ?st')"
    using assms by simp
  have at: "heap ?st' ! r = ?obj"
    using assms by simp
  have "map_of (heap ?st' ! r) ''number'' = Some (Num n) \<and>
        (\<exists>ms. req_body (last (requests (snd (fetchUpdate urlForUpdate H li kind
                                               \<lparr>body = Ref r, names = ?nm\<rparr> ?st')))) =
                Some (JSON_object ms) \<and>
              (''number'', Num n) \<in> set ms)"
    if number: "map_of (heap st ! r) ''number'' = Some (Num n)"
  proof -
    have n: "map_of ?obj ''number'' = Some (Num n)"
      using number by (simp add: map_of_delete_prop)
    then have "(''number'', Num n) \<in> set (heap ?st' ! r)"
      unfolding at by (rule map_of_SomeD)
    with len obtain ms where "JSON_stringify ?st' (Ref r) = JSON_object ms" "(''number'', Num n) \<in> set ms"
      using JSON_stringify_member by blast
    then show ?thesis
      using n at by (simp add: fetchUpdate_request)
  qed
  with pack show ?thesis
    by (intro exI [of _ ?nm] exI [of _ ?st']) simp
qed

theorem packEntry_keeps_number_witness:
  "\<exists>nm st'.
     packEntry (Ref 0) ''milestones'' st_milestone = (Inr \<lparr>body = Ref 0, names = nm\<rparr>, st') \<and>
     heap st' = [[(''title'', Str ''v1.0''), (''state'', Str ''open''),
                  (''description'', Str ''First release''), (''due_on'', Null), (''number'', Num 7)]] \<and>
     map_of (heap st' ! 0) ''number'' = Some (Num 7) \<and>
     (\<exists>ms. req_body (last (requests (snd (fetchUpdate urlForUpdate (example_host []) login0 ''milestones''
                                            \<lparr>body = Ref 0, names = nm\<rparr> st')))) =
             Some (JSON_object ms) \<and>
           (''number'', Num 7) \<in> set ms)"
  using packEntry_keeps_number [of 0 st_milestone "''milestones''" 7 "example_host []" login0]
  by (simp add: st_milestone_def milestone_entry0_def delete_prop_def)

subsection \<open>The URL builder\<close>

text \<open>
  C5. For every login information, kind and apiCallSign, the URL for update and the URL
  for delete are the URL of the kind in the home repository, a \<open>/\<close>, and the apiCallSign
  as a template literal renders it, character for character: the builder escapes
  nothing.
\<close>

theorem mutateUrl_sign_verbatim:
  "urlForUpdate li kind sign = urlForCreate li kind @ ''/'' @ toString sign \<and>
   urlForDelete li kind sign = urlForCreate li kind @ ''/'' @ toString sign"
  by (simp add: urlForUpdate_def urlForDelete_def urlForCreate_def)

theorem mutateUrl_sign_verbatim_witness:
  "urlForUpdate login0 ''labels'' (Str ''help wanted'') =
     ''https://api.github.com/repos/octocat/hello-world/labels/help wanted'' \<and>
   urlForDelete login0 ''labels'' (Str ''help wanted'') =
     ''https://api.github.com/repos/octocat/hello-world/labels/help wanted''"
  using mutateUrl_sign_verbatim [of login0 "''labels''" "Str ''help wanted''"]
  by (simp add: urlForCreate_def login0_def)

text \<open>
  The label \<open>help wanted\<close>: escaped, its name is \<open>help%20wanted\<close>; the final path
  segment of the URLs for update and for delete is \<open>help wanted\<close>, not that.
\<close>

theorem mutateUrl_sign_not_escaped:
  "url_path_escape (toString (Str ''help wanted'')) = ''help%20wanted'' \<and>
   last_path_segment (urlForUpdate login0 ''labels'' (Str ''help wanted'')) = ''help wanted'' \<and>
   last_path_segment (urlForDelete login0 ''labels'' (Str ''help wanted'')) = ''help wanted'' \<and>
   last_path_segment (urlForUpdate login0 ''labels'' (Str ''help wanted'')) \<noteq>
     url_path_escape (toString (Str ''help wanted'')) \<and>
   last_path_segment (urlForDelete login0 ''labels'' (Str ''help wanted'')) \<noteq>
     url_path_escape (toString (Str ''help wanted''))"
  by (simp add: url_path_escape_def percent_encode_def is_unreserved_def hex_digit_def
        last_path_segment_def url_path_def urlForUpdate_def urlForDelete_def login0_def)

subsection \<open>The paginated collector\<close>

lemma fetchGet_urlForGet:
  "fetchGet urlForGet H li kind p mode st =
     (network H (get_request H li kind p mode),
      st\<lparr>requests := requests st @ [get_request H li kind p mode]\<rparr>)"
  by (simp add: fetchGet_def fetch_def get_request_def)

lemma page_servedE:
  assumes "page_served H li kind mode p page"
  obtains r where "network H (get_request H li kind p mode) = Some r" and "ok r" and "json r = Some page"
  using assms by (auto simp: page_served_def split: option.splits)

text \<open>One call, by what the server answers: an empty first page, an empty later page, a page of records.\<close>

lemma apiCallGet_empty_first:
  assumes "page_served H li kind mode 1 []"
  shows "apiCallGet H li kind 1 mode st =
           Some (Inl (Message (''No '' @ kind @ '' exist in this repository.'')),
                 st\<lparr>requests := requests st @ [get_request H li kind 1 mode]\<rparr>)"
proof -
  from assms(1) obtain r where r: "network H (get_request H li kind 1 mode) = Some r" "ok r" "json r = Some []"
    by (rule page_servedE)
  show ?thesis
    using r assms by (subst apiCallGet.simps) (simp add: fetchGet_urlForGet)
qed

lemma apiCallGet_empty_later:
  assumes "page_served H li kind mode p []" and "p \<noteq> 1"
  shows "apiCallGet H li kind p mode st =
           Some (Inr [], st\<lparr>requests := requests st @ [get_request H li kind p mode]\<rparr>)"
proof -
  from assms(1) obtain r where r: "network H (get_request H li kind p mode) = Some r" "ok r" "json r = Some []"
    by (rule page_servedE)
  show ?thesis
    using r assms by (subst apiCallGet.simps) (simp add: fetchGet_urlForGet)
qed

lemma apiCallGet_nonempty:
  assumes "page_served H li kind mode p page" and "page \<noteq> []"
  shows "apiCallGet H li kind p mode st =
           Option.bind
             (apiCallGet H li kind (p + 1) mode
                (st\<lparr>requests := requests st @ [get_request H li kind p mode]\<rparr>))
             (\<lambda>(outcome, st2).
                case outcome of
                  Inl err \<Rightarrow> Some (catch_reject err st2)
                | Inr rest \<Rightarrow> Some (Inr (page @ rest), st2))"
proof -
  from assms(1) obtain r where r: "network H (get_request H li kind p mode) = Some r" "ok r" "json r = Some page"
    by (rule page_servedE)
  show ?thesis
    using r assms by (subst apiCallGet.simps) (simp add: fetchGet_urlForGet)
qed

text \<open>
  Pages of records followed by an empty page, from page \<open>p\<close> on: the call returns, with
  the records of all the pages in order, after one request for each page. When \<open>p\<close> is
  1, at least one page has records.
\<close>

lemma apiCallGet_pages:
  assumes "serves H li kind mode p (ps @ [[]])" and "\<forall>x\<in>set ps. x \<noteq> []" and "0 < p" and "ps \<noteq> [] \<or> p \<noteq> 1"
  shows "apiCallGet H li kind p mode st =
           Some (Inr (concat ps),
                 st\<lparr>requests := requests st @ get_requests H li kind mode p (length ps + 1)\<rparr>)"
  using assms
proof (induction ps arbitrary: p st)
  case Nil
  then show ?case by (simp add: apiCallGet_empty_later)
next
  case (Cons x xs)
  have x: "page_served H li kind mode p x" "x \<noteq> []" using Cons.prems by simp_all
  have "apiCallGet H li kind (p + 1) mode (st\<lparr>requests := requests st @ [get_request H li kind p mode]\<rparr>) =
          Some (Inr (concat xs),
                (st\<lparr>requests := requests st @ [get_request H li kind p mode]\<rparr>)
                \<lparr>requests := requests (st\<lparr>requests := requests st @ [get_request H li kind p mode]\<rparr>) @
                    get_requests H li kind mode (p + 1) (length xs + 1)\<rparr>)"
    using Cons.prems by (intro Cons.IH) simp_all
  then show ?case
    by (simp add: apiCallGet_nonempty [OF x])
qed

text \<open>
  A call for a page from 1 on that rejects with a plain message is a call for page 1,
  and the server has answered it with an empty page.
\<close>

lemma apiCallGet_Message:
  assumes "apiCallGet H li kind p mode st = Some y"
  shows "fst y = Inl (Message m) \<longrightarrow> 1 \<le> p \<longrightarrow> p = 1 \<and> page_served H li kind mode 1 []"
proof (rule apiCallGet.raw_induct
    [where P = "\<lambda>H li kind p mode st y.
       fst y = Inl (Message m) \<longrightarrow> 1 \<le> p \<longrightarrow> p = 1 \<and> page_served H li kind mode 1 []",
     OF _ assms], goal_cases)
  case (1 rec H li kind p mode st y)
  show ?case
  proof (cases "network H (get_request H li kind p mode)")
    case None
    with 1(2) show ?thesis
      by (auto simp: fetchGet_urlForGet catch_reject_def)
  next
    case (Some r)
    show ?thesis
    proof (cases "ok r")
      case False
      with 1(2) Some show ?thesis
        by (auto simp: fetchGet_urlForGet catch_reject_def)
    next
      case True
      show ?thesis
      proof (cases "json r")
        case None
        with 1(2) Some True show ?thesis
          by (auto simp: fetchGet_urlForGet catch_reject_def)
      next
        case (Some page)
        show ?thesis
        proof (cases "page = []")
          case True
          with 1(2) \<open>network H (get_request H li kind p mode) = Some r\<close> \<open>ok r\<close> Some show ?thesis
            by (auto simp: fetchGet_urlForGet page_served_def split: if_splits)
        next
          case False
          with 1(2) \<open>network H (get_request H li kind p mode) = Some r\<close> \<open>ok r\<close> Some
          have "Option.bind
                  (rec H li kind (p + 1) mode (st\<lparr>requests := requests st @ [get_request H li kind p mode]\<rparr>))
                  (\<lambda>(outcome, st2). case outcome of
                       Inl err \<Rightarrow> Some (catch_reject err st2)
                     | Inr rest \<Rightarrow> Some (Inr (page @ rest), st2)) = Some y"
            by (simp add: fetchGet_urlForGet)
          then obtain out where
            out: "rec H li kind (p + 1) mode (st\<lparr>requests := requests st @ [get_request H li kind p mode]\<rparr>) = Some out"
            and y': "(case out of (outcome, st2) \<Rightarrow> case outcome of
                       Inl err \<Rightarrow> Some (catch_reject err st2)
                     | Inr rest \<Rightarrow> Some (Inr (page @ rest), st2)) = Some y"
            by (auto simp: Option.bind_eq_Some_conv)
          obtain outcome st2 where o: "out = (outcome, st2)"
            by (cases out)
          have rec: "rec H li kind (p + 1) mode (st\<lparr>requests := requests st @ [get_request H li kind p mode]\<rparr>) = Some (outcome, st2)"
            using out o by simp
          have y: "y = (case outcome of Inl err \<Rightarrow> catch_reject err st2 | Inr rest \<Rightarrow> (Inr (page @ rest), st2))"
            using y' o by (cases outcome) auto
          from 1(1) [OF rec] have "fst (outcome, st2) = Inl (Message m) \<longrightarrow> 1 \<le> p + 1 \<longrightarrow> p + 1 = 1 \<and> page_served H li kind mode 1 []" .
          with y show ?thesis
            by (auto simp: catch_reject_def split: sum.splits)
        qed
      qed
    qed
  qed
qed

text \<open>The example servers hold their pages.\<close>

lemma urlForGet_labels_list:
  "urlForGet login0 ''labels'' p ''list'' =
     ''https://api.github.com/repos/octocat/hello-world/labels?per_page=20&page='' @ string_of_nat p"
  by (simp add: urlForGet_def login0_def)

lemma string_of_nat_123:
  "string_of_nat (Suc 0) = ''1''" "string_of_nat (Suc (Suc 0)) = ''2''"
  "string_of_nat (Suc (Suc (Suc 0))) = ''3''"
  by (simp_all add: string_of_nat.simps digit_char_def)

lemma serves_three_pages:
  "serves (example_host [[1, 2], [3], []]) login0 ''labels'' ''list'' 1 [[1, 2], [3], []]"
  by (simp add: page_served_def example_host_def get_request_def urlForGet_labels_list
        string_of_nat_123 ok_def)

lemma serves_two_pages:
  "serves (example_host [[1, 2], []]) login0 ''labels'' ''list'' 1 [[1, 2], []]"
  by (simp add: page_served_def example_host_def get_request_def urlForGet_labels_list
        string_of_nat_123 ok_def)

lemma serves_empty_page:
  "serves (example_host [[]]) login0 ''labels'' ''list'' 1 [[]]"
  by (simp add: page_served_def example_host_def get_request_def urlForGet_labels_list
        string_of_nat_123 ok_def)

text \<open>
  C1. For every sequence of pages returned by the server that has at least one page of
  records, in which every page before the last has records and the last page is empty,
  \<^verbatim>\<open>apiCallGet\<close> from page 1 returns, after one GET for each page, the records of all
  the pages: those of page 1 first, then those of page 2, and so on, each page in the
  order of the server.
\<close>

theorem apiCallGet_concatenates_pages:
  assumes "serves H li kind mode 1 (ps @ [[]])" and "\<forall>page\<in>set ps. page \<noteq> []" and "ps \<noteq> []"
  shows "apiCallGet H li kind 1 mode st =
           Some (Inr (concat ps),
                 st\<lparr>requests := requests st @ get_requests H li kind mode 1 (length ps + 1)\<rparr>)"
  using assms by (intro apiCallGet_pages) simp_all

theorem apiCallGet_concatenates_pages_witness:
  "apiCallGet (example_host [[1, 2], [3], []]) login0 ''labels'' 1 ''list'' st0 =
     Some (Inr [1, 2, 3],
           st0\<lparr>requests :=
                 [get_request (example_host [[1, 2], [3], []]) login0 ''labels'' 1 ''list'',
                  get_request (example_host [[1, 2], [3], []]) login0 ''labels'' 2 ''list'',
                  get_request (example_host [[1, 2], [3], []]) login0 ''labels'' 3 ''list'']\<rparr>)"
  using apiCallGet_concatenates_pages
          [of "example_host [[1, 2], [3], []]" login0 "''labels''" "''list''" "[[1, 2], [3]]" st0]
        serves_three_pages
  by (simp add: st0_def numeral_3_eq_3 numeral_2_eq_2)

text \<open>
  The sequence of the single empty page: no page before the last is without records,
  the last page is empty, and \<^verbatim>\<open>apiCallGet\<close> from page 1 rejects instead of returning
  the concatenation of the pages.
\<close>

theorem apiCallGet_single_empty_page:
  "serves (example_host [[]]) login0 ''labels'' ''list'' 1 ([] @ [[]]) \<and>
   apiCallGet (example_host [[]]) login0 ''labels'' 1 ''list'' st0 =
     Some (Inl (Message ''No labels exist in this repository.''),
           st0\<lparr>requests := [get_request (example_host [[]]) login0 ''labels'' 1 ''list'']\<rparr>) \<and>
   apiCallGet (example_host [[]]) login0 ''labels'' 1 ''list'' st0 \<noteq>
     Some (Inr (concat []),
           st0\<lparr>requests := requests st0 @
                  get_requests (example_host [[]]) login0 ''labels'' ''list'' 1
                    (length ([] :: nat list list) + 1)\<rparr>)"
proof -
  have p: "page_served (example_host [[]]) login0 ''labels'' ''list'' 1 []"
    using serves_empty_page by simp
  show ?thesis
    using serves_empty_page apiCallGet_empty_first [OF p, of st0] by (simp add: st0_def)
qed

text \<open>
  C2. \<^verbatim>\<open>apiCallGet\<close> from page 1 rejects with a plain message exactly when the
  response for page 1 is an empty array, and the message is then that no entries of
  the kind exist. An empty array at a page after the first is no error: the call for
  that page succeeds with no records, and when pages of records are followed by an
  empty page, the call from page 1 succeeds and returns the records of the pages
  before the empty one.
\<close>

theorem apiCallGet_empty_page:
  "((\<exists>m st'. apiCallGet H li kind 1 mode st = Some (Inl (Message m), st')) \<longleftrightarrow>
      page_served H li kind mode 1 []) \<and>
   (page_served H li kind mode 1 [] \<longrightarrow>
      apiCallGet H li kind 1 mode st =
        Some (Inl (Message (''No '' @ kind @ '' exist in this repository.'')),
              st\<lparr>requests := requests st @ [get_request H li kind 1 mode]\<rparr>)) \<and>
   (1 < p \<and> page_served H li kind mode p [] \<longrightarrow>
      apiCallGet H li kind p mode st =
        Some (Inr [], st\<lparr>requests := requests st @ [get_request H li kind p mode]\<rparr>)) \<and>
   (serves H li kind mode 1 (ps @ [[]]) \<and> (\<forall>page\<in>set ps. page \<noteq> []) \<and> ps \<noteq> [] \<longrightarrow>
      apiCallGet H li kind 1 mode st =
        Some (Inr (concat ps),
              st\<lparr>requests := requests st @ get_requests H li kind mode 1 (length ps + 1)\<rparr>))"
proof (intro conjI impI iffI)
  assume "1 < p \<and> page_served H li kind mode p []"
  then show "apiCallGet H li kind p mode st =
        Some (Inr [], st\<lparr>requests := requests st @ [get_request H li kind p mode]\<rparr>)"
    by (intro apiCallGet_empty_later) simp_all
next
  assume "\<exists>m st'. apiCallGet H li kind 1 mode st = Some (Inl (Message m), st')"
  then obtain m st' where "apiCallGet H li kind 1 mode st = Some (Inl (Message m), st')"
    by blast
  from apiCallGet_Message [OF this, of m] show "page_served H li kind mode 1 []"
    by simp
next
  assume "page_served H li kind mode 1 []"
  then show "\<exists>m st'. apiCallGet H li kind 1 mode st = Some (Inl (Message m), st')"
    using apiCallGet_empty_first by blast
next
  assume "page_served H li kind mode 1 []"
  then show "apiCallGet H li kind 1 mode st =
        Some (Inl (Message (''No '' @ kind @ '' exist in this repository.'')),
              st\<lparr>requests := requests st @ [get_request H li kind 1 mode]\<rparr>)"
    by (rule apiCallGet_empty_first)
next
  assume "serves H li kind mode 1 (ps @ [[]]) \<and> (\<forall>page\<in>set ps. page \<noteq> []) \<and> ps \<noteq> []"
  then show "apiCallGet H li kind 1 mode st =
        Some (Inr (concat ps),
              st\<lparr>requests := requests st @ get_requests H li kind mode 1 (length ps + 1)\<rparr>)"
    by (intro apiCallGet_pages) simp_all
qed

theorem apiCallGet_empty_page_witness:
  "apiCallGet (example_host [[]]) login0 ''labels'' 1 ''list'' st0 =
     Some (Inl (Message ''No labels exist in this repository.''),
           st0\<lparr>requests := [get_request (example_host [[]]) login0 ''labels'' 1 ''list'']\<rparr>) \<and>
   apiCallGet (example_host [[1, 2], []]) login0 ''labels'' 2 ''list'' st0 =
     Some (Inr [],
           st0\<lparr>requests := [get_request (example_host [[1, 2], []]) login0 ''labels'' 2 ''list'']\<rparr>) \<and>
   apiCallGet (example_host [[1, 2], []]) login0 ''labels'' 1 ''list'' st0 =
     Some (Inr [1, 2],
           st0\<lparr>requests :=
                 [get_request (example_host [[1, 2], []]) login0 ''labels'' 1 ''list'',
                  get_request (example_host [[1, 2], []]) login0 ''labels'' 2 ''list'']\<rparr>)"
proof -
  have p: "page_served (example_host [[]]) login0 ''labels'' ''list'' 1 []"
    using serves_empty_page by simp
  have q: "page_served (example_host [[1, 2], []]) login0 ''labels'' ''list'' 2 []"
    using serves_two_pages by (simp add: numeral_2_eq_2)
  have "apiCallGet (example_host [[]]) login0 ''labels'' 1 ''list'' st0 =
     Some (Inl (Message ''No labels exist in this repository.''),
           st0\<lparr>requests := [get_request (example_host [[]]) login0 ''labels'' 1 ''list'']\<rparr>)"
    using apiCallGet_empty_page [of "example_host [[]]" login0 "''labels''" "''list''" st0 2 "[]"] p
    by (simp add: st0_def)
  moreover have "apiCallGet (example_host [[1, 2], []]) login0 ''labels'' 2 ''list'' st0 =
     Some (Inr [],
           st0\<lparr>requests := [get_request (example_host [[1, 2], []]) login0 ''labels'' 2 ''list'']\<rparr>)"
    using apiCallGet_empty_page
            [of "example_host [[1, 2], []]" login0 "''labels''" "''list''" st0 2 "[]"] q
    by (simp add: st0_def)
  moreover have "apiCallGet (example_host [[1, 2], []]) login0 ''labels'' 1 ''list'' st0 =
     Some (Inr [1, 2],
           st0\<lparr>requests :=
                 [get_request (example_host [[1, 2], []]) login0 ''labels'' 1 ''list'',
                  get_request (example_host [[1, 2], []]) login0 ''labels'' 2 ''list'']\<rparr>)"
    using apiCallGet_empty_page
            [of "example_host [[1, 2], []]" login0 "''labels''" "''list''" st0 2 "[[1, 2]]"]
          serves_two_pages
    by (simp add: st0_def numeral_2_eq_2)
  ultimately show ?thesis by simp
qed

subsection \<open>The public operations\<close>

text \<open>
  C8. With a kind that is neither \<open>labels\<close> nor \<open>milestones\<close>, such as \<open>issues\<close>,
  each of \<^verbatim>\<open>apiCallCreate\<close>, \<^verbatim>\<open>apiCallUpdate\<close> and \<^verbatim>\<open>apiCallDelete\<close> writes the
  validation error to the log and returns: it sends no request, and the state is
  otherwise as before.
\<close>

theorem invalid_kind_sends_nothing:
  assumes "kind \<noteq> ''labels''" and "kind \<noteq> ''milestones''"
  shows "apiCallCreate H node kind st =
           (Inr (), st\<lparr>modal_log := modal_log st @ [errorString H (ValidationError kind)]\<rparr>) \<and>
         apiCallUpdate H node kind st =
           (Inr (), st\<lparr>modal_log := modal_log st @ [errorString H (ValidationError kind)]\<rparr>) \<and>
         apiCallDelete H node kind st =
           (Inr (), st\<lparr>modal_log := modal_log st @ [errorString H (ValidationError kind)]\<rparr>) \<and>
         requests (snd (apiCallCreate H node kind st)) = requests st \<and>
         requests (snd (apiCallUpdate H node kind st)) = requests st \<and>
         requests (snd (apiCallDelete H node kind st)) = requests st"
  using assms
  by (simp add: apiCallCreate_def apiCallUpdate_def apiCallDelete_def validateKind_def writeLog_def)

theorem invalid_kind_sends_nothing_witness:
  "apiCallCreate (example_host []) label_node ''issues'' st0 =
     (Inr (), st0\<lparr>modal_log := [''Error: invalid kind issues'']\<rparr>) \<and>
   apiCallUpdate (example_host []) label_node ''issues'' st0 =
     (Inr (), st0\<lparr>modal_log := [''Error: invalid kind issues'']\<rparr>) \<and>
   apiCallDelete (example_host []) label_node ''issues'' st0 =
     (Inr (), st0\<lparr>modal_log := [''Error: invalid kind issues'']\<rparr>) \<and>
   requests (snd (apiCallCreate (example_host []) label_node ''issues'' st0)) = [] \<and>
   requests (snd (apiCallUpdate (example_host []) label_node ''issues'' st0)) = [] \<and>
   requests (snd (apiCallDelete (example_host []) label_node ''issues'' st0)) = []"
  using invalid_kind_sends_nothing [of "''issues''" "example_host []" label_node st0]
  by (simp add: example_host_def st0_def)

end
